theory Spec2Isabelle
  imports Main "HOL-Library.Word"
begin

section \<open>The Utho object-storage client\<close>

text \<open>
  A shallow embedding of the class \<open>UthoObjectStorage\<close>: its constructor, the error
  normalisation of \<open>handleError\<close>, and the operations \<open>getObjectStorageDetails\<close>,
  \<open>bucketExists\<close>, \<open>uploadFile\<close>, \<open>putObject\<close>, \<open>getSharableUrl\<close> and \<open>getObject\<close>.

  JavaScript strings are modelled as \<open>string\<close>. The client only concatenates them,
  compares them with literals, tests them for emptiness and splits them at the ASCII
  character \<open>/\<close>, so the choice of code unit does not matter.
\<close>

subsection \<open>JavaScript values and truthiness\<close>

text \<open>
  Values of type \<open>any\<close>: the body of a response and the fields read from a rejected
  request. Numbers are modelled as integers; no operation of the client computes with
  them, it only tests them with \<open>||\<close> and \<open>===\<close>.
\<close>

datatype jsval =
    Undefined
  | Null
  | Bool bool
  | Num int
  | Str string
  | Arr "jsval list"
  | Obj "(string \<times> jsval) list"

fun truthy :: "jsval \<Rightarrow> bool" where
  "truthy Undefined = False"
| "truthy Null = False"
| "truthy (Bool b) = b"
| "truthy (Num n) = (n \<noteq> 0)"
| "truthy (Str s) = (s \<noteq> [])"
| "truthy (Arr xs) = True"
| "truthy (Obj kvs) = True"

text \<open>\<open>a || b\<close>\<close>

definition js_or :: "jsval \<Rightarrow> jsval \<Rightarrow> jsval" where
  "js_or a b = (if truthy a then a else b)"

text \<open>
  Truthiness of an optional string (\<open>token?: string\<close>): \<open>undefined\<close> and the empty
  string are falsy. This is the test the client applies to every credential, so a
  credential counts as supplied when it is present and not empty.
\<close>

fun supplied :: "string option \<Rightarrow> bool" where
  "supplied None = False"
| "supplied (Some s) = (s \<noteq> [])"

text \<open>
  Reading a property with optional chaining, \<open>v?.k\<close>: \<open>undefined\<close> when \<open>v\<close> is
  \<open>null\<close> or \<open>undefined\<close>. None of the property names the client reads (\<open>data\<close>,
  \<open>code\<close>, \<open>message\<close>) exists on a primitive, an array or \<open>Object.prototype\<close>.
\<close>

fun opt_member :: "jsval \<Rightarrow> string \<Rightarrow> jsval" where
  "opt_member (Obj kvs) k = (case map_of kvs k of None \<Rightarrow> Undefined | Some v \<Rightarrow> v)"
| "opt_member v k = Undefined"

subsection \<open>Errors\<close>

text \<open>The interface \<open>UthoError\<close>; \<open>requestId\<close> is \<open>None\<close> when the header is absent.\<close>

record UthoError =
  code :: jsval
  message :: jsval
  statusCode :: int
  requestId :: "string option"

text \<open>
  What a call of the client can throw: the \<open>Error\<close> of the constructor, the
  \<open>UthoError\<close> thrown by the response interceptor, and the \<open>TypeError\<close> of reading a
  property of \<open>null\<close> or \<open>undefined\<close>.
\<close>

datatype error =
    Error string
  | Utho UthoError
  | TypeError

text \<open>Reading a property without optional chaining, \<open>v.k\<close>.\<close>

fun member_of :: "jsval \<Rightarrow> string \<Rightarrow> error + jsval" where
  "member_of Undefined k = Inl TypeError"
| "member_of Null k = Inl TypeError"
| "member_of v k = Inr (opt_member v k)"

subsection \<open>Configuration and the HTTP client\<close>

text \<open>
  A header object (\<open>Record<string, string>\<close>): its keys in insertion order, each once.
  \<open>map_of\<close> reads a key.
\<close>

type_synonym headers = "(string \<times> string) list"

text \<open>\<open>obj[k] = v\<close>\<close>

fun set_header :: "string \<Rightarrow> string \<Rightarrow> headers \<Rightarrow> headers" where
  "set_header k v [] = [(k, v)]"
| "set_header k v ((k', v') # hs) =
     (if k' = k then (k, v) # hs else (k', v') # set_header k v hs)"

text \<open>The spread \<open>{ ...a, ...b }\<close>: the keys of \<open>b\<close> are assigned to a copy of \<open>a\<close>.\<close>

definition spread :: "headers \<Rightarrow> headers \<Rightarrow> headers" where
  "spread a b = fold (\<lambda>(k, v). set_header k v) b a"

text \<open>The interface \<open>UthoConfig\<close>.\<close>

record UthoConfig =
  token :: "string option"
  accessKey :: "string option"
  secretKey :: "string option"
  timeout :: "int option"
  endpoint :: "string option"

text \<open>What \<open>axios.create\<close> receives.\<close>

record AxiosInstance =
  baseURL :: string
  inst_timeout :: int
  inst_headers :: headers

text \<open>The private fields of the class.\<close>

record UthoObjectStorage =
  config :: UthoConfig
  httpClient :: AxiosInstance

definition auth_required_message :: string where
  "auth_required_message =
     ''Authentication required. Please provide either:'' @ [CHR 0x0A] @
     ''1. Bearer token: { token: \"your-bearer-token\" }'' @ [CHR 0x0A] @
     ''2. Access keys: { accessKey: \"your-access-key\", secretKey: \"your-secret-key\" }''"

definition default_endpoint :: string where
  "default_endpoint = ''https://api.utho.com/v2''"

text \<open>
  The header object the constructor builds (\<open>authHeaders\<close>), from the resolved
  configuration.
\<close>

definition constructor_authHeaders :: "UthoConfig \<Rightarrow> headers" where
  "constructor_authHeaders cfg =
     (let authHeaders = [(''Content-Type'', ''application/json''),
                         (''User-Agent'', ''@utho/object-storage/1.0.0'')]
      in if supplied (token cfg) then
           set_header ''Authorization'' (''Bearer '' @ the (token cfg)) authHeaders
         else if supplied (accessKey cfg) \<and> supplied (secretKey cfg) then
           set_header ''X-Secret-Key'' (the (secretKey cfg))
             (set_header ''X-Access-Key'' (the (accessKey cfg)) authHeaders)
         else authHeaders)"

text \<open>
  The constructor. The two \<open>console.warn\<close> calls for a custom endpoint write to the
  console only and are left out.
\<close>

definition new_UthoObjectStorage :: "UthoConfig \<Rightarrow> error + UthoObjectStorage" where
  "new_UthoObjectStorage cfg =
     (if \<not> supplied (token cfg) \<and> (\<not> supplied (accessKey cfg) \<or> \<not> supplied (secretKey cfg))
      then Inl (Error auth_required_message)
      else
        let ep = (if supplied (endpoint cfg) then the (endpoint cfg) else default_endpoint);
            tm = (case timeout cfg of None \<Rightarrow> 30000 | Some t \<Rightarrow> if t \<noteq> 0 then t else 30000);
            this_config = \<lparr>token = token cfg, accessKey = accessKey cfg,
                           secretKey = secretKey cfg, timeout = Some tm, endpoint = Some ep\<rparr>
        in Inr \<lparr>config = this_config,
                 httpClient = \<lparr>baseURL = ep, inst_timeout = tm,
                                inst_headers = constructor_authHeaders this_config\<rparr>\<rparr>)"

subsection \<open>Requests, responses and the transport\<close>

text \<open>An \<open>AxiosResponse\<close>, as far as the client reads it.\<close>

record AxiosResponse =
  data :: jsval
  status :: int
  headers :: "string \<rightharpoonup> string"

text \<open>
  The value a rejected request carries (\<open>error: any\<close> in the interceptor):
  \<open>error.response\<close>, \<open>error.code\<close> and \<open>error.message\<close>.
\<close>

record AxiosError =
  response :: "AxiosResponse option"
  err_code :: jsval
  err_message :: jsval

text \<open>A \<open>File\<close> object.\<close>

record FileObj =
  file_name :: string
  file_type :: string
  file_bytes :: "8 word list"

text \<open>
  A value passed as upload content, or appended to a form. The parameter types are
  \<open>File | Buffer\<close> (\<open>uploadFile\<close>) and \<open>string | Buffer | File\<close> (\<open>putObject\<close>). The
  types are erased at run time, where the code tells the values apart with
  \<open>instanceof Buffer\<close> and \<open>typeof content === 'string'\<close> only; a string handed to
  \<open>uploadFile\<close> takes the branch written for \<open>File\<close>.
\<close>

datatype content =
    Buffer "8 word list"
  | File FileObj
  | Text string

text \<open>The options object of \<open>formData.append\<close>.\<close>

record append_options =
  filename :: string
  contentType :: string

text \<open>One part of a form: the arguments of \<open>formData.append(name, value, options?)\<close>.\<close>

record form_part =
  part_name :: string
  part_value :: content
  part_options :: "append_options option"

type_synonym FormData = "form_part list"

text \<open>
  \<open>formData.append(name, value, options?)\<close> of the form-data library. It takes a
  buffer or a string as it is. Any other object is taken for a stream, and the library
  calls its method \<open>on\<close>; a \<open>File\<close> has none, so the call throws a \<open>TypeError\<close>
  and the part is not added.
\<close>

definition append ::
  "FormData \<Rightarrow> string \<Rightarrow> content \<Rightarrow> append_options option \<Rightarrow> error + FormData" where
  "append formData n v opts =
     (case v of
        File fo \<Rightarrow> Inl TypeError
      | _ \<Rightarrow> Inr (formData @ [\<lparr>part_name = n, part_value = v, part_options = opts\<rparr>]))"

datatype http_method = GET | POST

datatype body = NoBody | Multipart FormData

text \<open>
  A call \<open>httpClient.get(url)\<close> or \<open>httpClient.post(url, data, { headers })\<close>;
  \<open>req_headers\<close> is empty when the call passes no \<open>headers\<close>.
\<close>

record request =
  req_method :: http_method
  url :: string
  req_body :: body
  req_headers :: headers

text \<open>
  What the client takes from its libraries: the transport behind the axios instance
  (it answers a request or rejects it), the boundary the form-data library chooses for
  a form, \<open>Buffer.from(s, 'utf8')\<close> and \<open>JSON.stringify\<close>.
\<close>

record runtime =
  http :: "AxiosInstance \<Rightarrow> request \<Rightarrow> AxiosError + AxiosResponse"
  boundary :: string
  Buffer_from_utf8 :: "string \<Rightarrow> 8 word list"
  JSON_stringify :: "jsval \<Rightarrow> string"

text \<open>
  \<open>formData.getHeaders()\<close> of the form-data library: the multipart content type with
  the boundary, under the lower-case key.
\<close>

definition getHeaders :: "runtime \<Rightarrow> headers" where
  "getHeaders rt = [(''content-type'', ''multipart/form-data; boundary='' @ boundary rt)]"

text \<open>
  The headers axios sends for a call: the headers of the instance overridden by the
  headers of the call. Header names are compared without regard to case, so both objects
  are read under lower-case names. An upper-case ASCII letter becomes lower-case by
  setting the bit of value 32.
\<close>

definition lower_char :: "char \<Rightarrow> char" where
  "lower_char c =
     (if (65 :: nat) \<le> of_char c \<and> of_char c \<le> (90 :: nat)
      then (case c of Char b0 b1 b2 b3 b4 b5 b6 b7 \<Rightarrow> Char b0 b1 b2 b3 b4 True b6 b7)
      else c)"

definition lower_names :: "headers \<Rightarrow> headers" where
  "lower_names hs = spread [] (map (\<lambda>(k, v). (map lower_char k, v)) hs)"

definition axios_headers :: "AxiosInstance \<Rightarrow> request \<Rightarrow> headers" where
  "axios_headers inst r = spread (lower_names (inst_headers inst)) (lower_names (req_headers r))"

subsection \<open>Error normalisation\<close>

text \<open>\<open>error.response?.data?.k\<close>\<close>

definition response_data :: "AxiosError \<Rightarrow> string \<Rightarrow> jsval" where
  "response_data error k =
     (case response error of None \<Rightarrow> Undefined | Some r \<Rightarrow> opt_member (data r) k)"

text \<open>The private method \<open>handleError\<close>.\<close>

definition handleError :: "AxiosError \<Rightarrow> UthoError" where
  "handleError error =
     \<lparr>code =
        js_or (response_data error ''code'') (js_or (err_code error) (Str ''UnknownError'')),
      message =
        js_or (response_data error ''message'')
          (js_or (err_message error) (Str ''An unknown error occurred'')),
      statusCode =
        (case response error of
           None \<Rightarrow> 500
         | Some r \<Rightarrow> if status r \<noteq> 0 then status r else 500),
      requestId =
        (case response error of None \<Rightarrow> None | Some r \<Rightarrow> headers r ''x-request-id'')\<rparr>"

text \<open>
  A request through the axios instance with the response interceptor installed by the
  constructor: a response is passed on, a rejection is replaced by
  \<open>handleError(error)\<close> and thrown.
\<close>

definition intercepted :: "runtime \<Rightarrow> AxiosInstance \<Rightarrow> request \<Rightarrow> error + AxiosResponse" where
  "intercepted rt inst r =
     (case http rt inst r of
        Inl error \<Rightarrow> Inl (Utho (handleError error))
      | Inr resp \<Rightarrow> Inr resp)"

text \<open>\<open>error.statusCode\<close> of a caught value.\<close>

fun statusCode_of :: "error \<Rightarrow> jsval" where
  "statusCode_of (Utho e) = Num (statusCode e)"
| "statusCode_of (Error m) = Undefined"
| "statusCode_of TypeError = Undefined"

subsection \<open>Bucket details and existence\<close>

definition getObjectStorageDetails_request :: "string \<Rightarrow> string \<Rightarrow> request" where
  "getObjectStorageDetails_request dcslug name =
     \<lparr>req_method = GET,
      url = ''/objectstorage/'' @ dcslug @ ''/bucket/'' @ name @ ''/'',
      req_body = NoBody,
      req_headers = []\<rparr>"

definition getObjectStorageDetails ::
  "runtime \<Rightarrow> UthoObjectStorage \<Rightarrow> string \<Rightarrow> string \<Rightarrow> error + jsval" where
  "getObjectStorageDetails rt this dcslug name =
     (case intercepted rt (httpClient this) (getObjectStorageDetails_request dcslug name) of
        Inl e \<Rightarrow> Inl e
      | Inr resp \<Rightarrow>
          (case member_of (data resp) ''data'' of
             Inl e \<Rightarrow> Inl e
           | Inr d \<Rightarrow> Inr (js_or d (data resp))))"

definition bucketExists ::
  "runtime \<Rightarrow> UthoObjectStorage \<Rightarrow> string \<Rightarrow> string \<Rightarrow> error + bool" where
  "bucketExists rt this dcslug name =
     (case getObjectStorageDetails rt this dcslug name of
        Inr details \<Rightarrow> Inr True
      | Inl error \<Rightarrow> if statusCode_of error = Num 404 then Inr False else Inl error)"

subsection \<open>Splitting the combined path\<close>

text \<open>\<open>s.split(sep)\<close> for a one-character separator: never empty, \<open>['']\<close> for \<open>''\<close>.\<close>

fun js_split :: "char \<Rightarrow> string \<Rightarrow> string list" where
  "js_split sep [] = [[]]"
| "js_split sep (c # cs) =
     (if c = sep then [] # js_split sep cs
      else (case js_split sep cs of
              [] \<Rightarrow> [[c]]
            | p # ps \<Rightarrow> (c # p) # ps))"

text \<open>\<open>parts.join(sep)\<close>\<close>

fun js_join :: "string \<Rightarrow> string list \<Rightarrow> string" where
  "js_join sep [] = []"
| "js_join sep [p] = p"
| "js_join sep (p # q # ps) = p @ sep @ js_join sep (q # ps)"

text \<open>
  \<open>parts.pop()\<close>: the removed last element (\<open>undefined\<close> for an empty array) and the
  array that is left.
\<close>

definition js_pop :: "'a list \<Rightarrow> 'a option \<times> 'a list" where
  "js_pop xs = (if xs = [] then (None, []) else (Some (last xs), butlast xs))"

text \<open>
  The first three statements of \<open>uploadFile\<close>: \<open>(filename, directoryPath)\<close> of a
  combined path.
\<close>

definition split_path :: "string \<Rightarrow> string \<times> string" where
  "split_path path =
     (let pathParts = js_split CHR ''/'' path;
          (popped, pathParts') = js_pop pathParts;
          filename = (if supplied popped then the popped else ''file'');
          directoryPath = js_join ''/'' pathParts'
      in (filename, directoryPath))"

subsection \<open>Upload\<close>

text \<open>
  The form \<open>uploadFile\<close> builds, or the error an \<open>append\<close> throws before the form is
  complete.
\<close>

definition upload_formData :: "content \<Rightarrow> string \<Rightarrow> error + FormData" where
  "upload_formData file path =
     (let formData = [];
          (filename, directoryPath) = split_path path
      in case (case file of
                 Buffer b \<Rightarrow>
                   append formData ''file'' file
                     (Some \<lparr>filename = filename, contentType = ''application/octet-stream''\<rparr>)
               | _ \<Rightarrow> append formData ''file'' file None) of
           Inl e \<Rightarrow> Inl e
         | Inr formData \<Rightarrow>
             if directoryPath \<noteq> [] then append formData ''path'' (Text directoryPath) None
             else Inr formData)"

text \<open>The local \<open>authHeaders\<close> of \<open>uploadFile\<close>.\<close>

definition upload_authHeaders :: "UthoConfig \<Rightarrow> headers" where
  "upload_authHeaders cfg =
     (let authHeaders = []
      in if supplied (token cfg) then
           set_header ''Authorization'' (''Bearer '' @ the (token cfg)) authHeaders
         else if supplied (accessKey cfg) \<and> supplied (secretKey cfg) then
           set_header ''X-Secret-Key'' (the (secretKey cfg))
             (set_header ''X-Access-Key'' (the (accessKey cfg)) authHeaders)
         else authHeaders)"

text \<open>The arguments of the \<open>httpClient.post\<close> call, for a form that was built.\<close>

definition uploadFile_request ::
  "runtime \<Rightarrow> UthoObjectStorage \<Rightarrow> string \<Rightarrow> string \<Rightarrow> FormData \<Rightarrow> request" where
  "uploadFile_request rt this dcslug name formData =
     \<lparr>req_method = POST,
      url = ''/objectstorage/'' @ dcslug @ ''/bucket/'' @ name @ ''/upload/'',
      req_body = Multipart formData,
      req_headers = spread (upload_authHeaders (config this)) (getHeaders rt)\<rparr>"

text \<open>
  \<open>uploadFile\<close>: an error thrown while the form is built ends the call before
  \<open>httpClient.post\<close> is reached.
\<close>

definition uploadFile ::
  "runtime \<Rightarrow> UthoObjectStorage \<Rightarrow> string \<Rightarrow> string \<Rightarrow> content \<Rightarrow> string \<Rightarrow> error + unit" where
  "uploadFile rt this dcslug name file path =
     (case upload_formData file path of
        Inl e \<Rightarrow> Inl e
      | Inr formData \<Rightarrow>
          (case intercepted rt (httpClient this)
                  (uploadFile_request rt this dcslug name formData) of
             Inl e \<Rightarrow> Inl e
           | Inr resp \<Rightarrow> Inr ()))"

text \<open>\<open>putObject\<close>; \<open>path\<close> is \<open>None\<close> when the argument is omitted (default \<open>''\<close>).\<close>

definition putObject ::
  "runtime \<Rightarrow> UthoObjectStorage \<Rightarrow> string \<Rightarrow> string \<Rightarrow> string \<Rightarrow> content \<Rightarrow> string option
     \<Rightarrow> error + unit" where
  "putObject rt this dcslug name fname content' path =
     (let path = (case path of None \<Rightarrow> [] | Some p \<Rightarrow> p);
          filePath = (if path \<noteq> [] then path @ ''/'' @ fname else fname);
          fileToUpload =
            (case content' of
               Text s \<Rightarrow> Buffer (Buffer_from_utf8 rt s)
             | _ \<Rightarrow> content')
      in uploadFile rt this dcslug name fileToUpload filePath)"

subsection \<open>Sharable URLs\<close>

definition actualExpiry :: "string \<Rightarrow> string" where
  "actualExpiry expiryTime = (if expiryTime = ''never'' then ''1y'' else expiryTime)"

definition getSharableUrl_request :: "string \<Rightarrow> string \<Rightarrow> string \<Rightarrow> string \<Rightarrow> request" where
  "getSharableUrl_request dcslug name fname expiryTime =
     \<lparr>req_method = GET,
      url = ''/objectstorage/'' @ dcslug @ ''/bucket/'' @ name @ ''/download?path='' @ fname
            @ ''&expire='' @ actualExpiry expiryTime,
      req_body = NoBody,
      req_headers = []\<rparr>"

text \<open>
  What \<open>getSharableUrl\<close> returns for the body of a response. Its declared result is a
  string; \<open>response.data.url\<close> and \<open>response.data.download_url\<close> are returned as they
  are when truthy.
\<close>

definition sharableUrl_of :: "runtime \<Rightarrow> jsval \<Rightarrow> error + jsval" where
  "sharableUrl_of rt d =
     (case d of
        Str s \<Rightarrow> Inr (Str s)
      | _ \<Rightarrow>
          (case member_of d ''url'' of
             Inl e \<Rightarrow> Inl e
           | Inr u \<Rightarrow>
               if truthy u then Inr u
               else if truthy (opt_member d ''download_url'') then Inr (opt_member d ''download_url'')
               else Inr (Str (JSON_stringify rt d))))"

definition getSharableUrl ::
  "runtime \<Rightarrow> UthoObjectStorage \<Rightarrow> string \<Rightarrow> string \<Rightarrow> string \<Rightarrow> string \<Rightarrow> error + jsval" where
  "getSharableUrl rt this dcslug name fname expiryTime =
     (case intercepted rt (httpClient this) (getSharableUrl_request dcslug name fname expiryTime) of
        Inl e \<Rightarrow> Inl e
      | Inr resp \<Rightarrow> sharableUrl_of rt (data resp))"




text \<open>\<open>getObject\<close>; \<open>expiryTime\<close> is \<open>None\<close> when the argument is omitted (default \<open>'1h'\<close>).\<close>

definition getObject ::
  "runtime \<Rightarrow> UthoObjectStorage \<Rightarrow> string \<Rightarrow> string \<Rightarrow> string \<Rightarrow> string option \<Rightarrow> error + jsval" where
  "getObject rt this dcslug name fname expiryTime =
     getSharableUrl rt this dcslug name fname (case expiryTime of None \<Rightarrow> ''1h'' | Some e \<Rightarrow> e)"

subsection \<open>The path rule in the words of the specification\<close>

text \<open>
  "Locate the last \<open>/\<close> in the path. Everything after it is the object (file) name;
  everything before it is the directory path. If no \<open>/\<close> exists, directory path is the
  empty string." The repository's tests compute the same two strings with
  \<open>lastIndexOf\<close> and \<open>substring\<close>.
\<close>

definition lastIndexOf :: "char \<Rightarrow> string \<Rightarrow> nat option" where
  "lastIndexOf c s =
     (if c \<in> set s then Some (length s - 1 - length (takeWhile (\<lambda>x. x \<noteq> c) (rev s))) else None)"

definition spec_objectName :: "string \<Rightarrow> string" where
  "spec_objectName path =
     (case lastIndexOf CHR ''/'' path of None \<Rightarrow> path | Some i \<Rightarrow> drop (i + 1) path)"

definition spec_directoryPath :: "string \<Rightarrow> string" where
  "spec_directoryPath path =
     (case lastIndexOf CHR ''/'' path of None \<Rightarrow> [] | Some i \<Rightarrow> take i path)"

subsection \<open>Example configurations and transports\<close>

text \<open>Concrete inputs on which the theorems below are instantiated.\<close>

definition token_config :: UthoConfig where
  "token_config =
     \<lparr>token = Some ''your-bearer-token'', accessKey = None, secretKey = None,
      timeout = None, endpoint = None\<rparr>"

definition keys_config :: UthoConfig where
  "keys_config =
     \<lparr>token = None, accessKey = Some ''your-access-key'', secretKey = Some ''your-secret-key'',
      timeout = None, endpoint = None\<rparr>"

definition both_config :: UthoConfig where
  "both_config =
     \<lparr>token = Some ''your-bearer-token'', accessKey = Some ''your-access-key'',
      secretKey = Some ''your-secret-key'', timeout = Some 60000, endpoint = None\<rparr>"

definition lone_key_config :: UthoConfig where
  "lone_key_config =
     \<lparr>token = None, accessKey = Some ''your-access-key'', secretKey = None,
      timeout = None, endpoint = None\<rparr>"

definition empty_config :: UthoConfig where
  "empty_config =
     \<lparr>token = None, accessKey = None, secretKey = None, timeout = None, endpoint = None\<rparr>"

text \<open>The client the constructor returns for \<open>token_config\<close>.\<close>

definition token_client :: UthoObjectStorage where
  "token_client =
     \<lparr>config = token_config\<lparr>timeout := Some 30000, endpoint := Some default_endpoint\<rparr>,
      httpClient =
        \<lparr>baseURL = default_endpoint, inst_timeout = 30000,
         inst_headers = [(''Content-Type'', ''application/json''),
                         (''User-Agent'', ''@utho/object-storage/1.0.0''),
                         (''Authorization'', ''Bearer your-bearer-token'')]\<rparr>\<rparr>"

definition ascii_bytes :: "string \<Rightarrow> 8 word list" where
  "ascii_bytes s = map of_char s"

definition ok_response :: AxiosResponse where
  "ok_response =
     \<lparr>data = Obj [(''data'', Obj [(''name'', Str ''my-bucket'')])], status = 200,
      headers = Map.empty\<rparr>"

text \<open>A transport that answers every request with status 200.\<close>

definition accepting :: runtime where
  "accepting =
     \<lparr>http = (\<lambda>inst r. Inr ok_response),
      boundary = ''----0123456789'',
      Buffer_from_utf8 = ascii_bytes,
      JSON_stringify = (\<lambda>v. ''{}'')\<rparr>"

text \<open>A transport that rejects every request with a response of the given status.\<close>

definition status_error :: "int \<Rightarrow> AxiosError" where
  "status_error st =
     \<lparr>response = Some \<lparr>data = Obj [(''message'', Str ''Bucket not found'')], status = st,
                         headers = [''x-request-id'' \<mapsto> ''req-1'']\<rparr>,
      err_code = Str ''ERR_BAD_REQUEST'',
      err_message = Str ''Request failed''\<rparr>"

definition rejecting :: "int \<Rightarrow> runtime" where
  "rejecting st =
     \<lparr>http = (\<lambda>inst r. Inl (status_error st)),
      boundary = ''----0123456789'',
      Buffer_from_utf8 = ascii_bytes,
      JSON_stringify = (\<lambda>v. ''{}'')\<rparr>"

text \<open>A rejection without a response and without a code or message.\<close>

definition bare_error :: AxiosError where
  "bare_error = \<lparr>response = None, err_code = Undefined, err_message = Undefined\<rparr>"

text \<open>
  A transport that accepts one request, which it answers with the given response, and
  rejects every other request.
\<close>

definition expecting :: "request \<Rightarrow> AxiosResponse \<Rightarrow> runtime" where
  "expecting r resp =
     \<lparr>http = (\<lambda>inst q. if q = r then Inr resp else Inl bare_error),
      boundary = ''----0123456789'',
      Buffer_from_utf8 = ascii_bytes,
      JSON_stringify = (\<lambda>v. ''{}'')\<rparr>"


definition readme_file :: FileObj where
  "readme_file =
     \<lparr>file_name = ''README.md'', file_type = ''text/markdown'', file_bytes = [35, 32, 85]\<rparr>"

section \<open>Properties\<close>

subsection \<open>Splitting and joining\<close>

lemma js_split_nonempty: "js_split sep s \<noteq> []"
  by (induction s) (auto split: list.splits)

lemma js_split_no_sep: "sep \<notin> set n \<Longrightarrow> js_split sep n = [n]"
  by (induction n) auto

lemma js_split_append: "sep \<notin> set n \<Longrightarrow> js_split sep (d @ sep # n) = js_split sep d @ [n]"
  using js_split_nonempty[of sep]
  by (induction d) (auto simp: js_split_no_sep split: list.splits)

lemma js_join_Cons_Cons: "js_join sep ((c # p) # ps) = c # js_join sep (p # ps)"
  by (cases ps) auto

text \<open>Joining what was split gives the string back.\<close>

lemma js_join_split: "js_join [sep] (js_split sep d) = d"
  using js_split_nonempty[of sep]
  by (induction d) (auto simp: js_join_Cons_Cons split: list.splits)

lemma split_path_slash:
  "CHR ''/'' \<notin> set n \<Longrightarrow> split_path (d @ ''/'' @ n) = (if n = [] then ''file'' else n, d)"
  by (simp add: split_path_def js_pop_def js_split_append js_join_split js_split_nonempty)

lemma split_path_no_slash:
  "CHR ''/'' \<notin> set p \<Longrightarrow> split_path p = (if p = [] then ''file'' else p, [])"
  by (simp add: split_path_def js_pop_def js_split_no_sep)

lemma lastIndexOf_slash:
  "c \<notin> set n \<Longrightarrow> lastIndexOf c (d @ c # n) = Some (length d)"
proof -
  assume n: "c \<notin> set n"
  have "takeWhile (\<lambda>x. x \<noteq> c) (rev n) = rev n"
    using n by auto
  then have len: "length (takeWhile (\<lambda>x. x \<noteq> c) (rev n)) = length n"
    by (simp only: length_rev)
  show ?thesis
    by (simp add: lastIndexOf_def takeWhile_tail len)
qed

lemma lastIndexOf_none: "c \<notin> set p \<Longrightarrow> lastIndexOf c p = None"
  by (simp add: lastIndexOf_def)

lemma spec_slash:
  "CHR ''/'' \<notin> set n \<Longrightarrow>
     spec_objectName (d @ ''/'' @ n) = n \<and> spec_directoryPath (d @ ''/'' @ n) = d"
  by (simp add: spec_objectName_def spec_directoryPath_def lastIndexOf_slash)

lemma spec_no_slash:
  "CHR ''/'' \<notin> set p \<Longrightarrow> spec_objectName p = p \<and> spec_directoryPath p = []"
  by (simp add: spec_objectName_def spec_directoryPath_def lastIndexOf_none)

text \<open>
  The two strings of the specification are what their names say: a path with a \<open>/\<close>
  is the directory path, a \<open>/\<close>, and an object name without \<open>/\<close>.
\<close>

lemma spec_decomposition:
  "CHR ''/'' \<in> set p \<Longrightarrow>
     p = spec_directoryPath p @ ''/'' @ spec_objectName p \<and>
     CHR ''/'' \<notin> set (spec_objectName p)"
proof -
  assume "CHR ''/'' \<in> set p"
  then obtain d n where p: "p = d @ CHR ''/'' # n" and n: "CHR ''/'' \<notin> set n"
    by (auto dest: split_list_last)
  from p have p': "p = d @ ''/'' @ n" by simp
  show ?thesis
    unfolding p' using spec_slash[OF n, of d] n by simp
qed

lemma split_path_spec:
  "split_path p =
     (if spec_objectName p = [] then ''file'' else spec_objectName p, spec_directoryPath p)"
proof (cases "CHR ''/'' \<in> set p")
  case True
  then obtain d n where p: "p = d @ CHR ''/'' # n" and n: "CHR ''/'' \<notin> set n"
    by (auto dest: split_list_last)
  from p have p': "p = d @ ''/'' @ n" by simp
  show ?thesis
    unfolding p' using split_path_slash[OF n, of d] spec_slash[OF n, of d] by simp
next
  case False
  then show ?thesis
    using split_path_no_slash[of p] spec_no_slash[of p] by simp
qed

subsection \<open>Header objects\<close>

lemma map_of_set_header: "map_of (set_header k v hs) = (map_of hs)(k \<mapsto> v)"
  by (induction hs) auto

lemma spread_single: "spread a [(k, v)] = set_header k v a"
  by (simp add: spread_def)

subsection \<open>The form of an upload\<close>

lemma upload_formData_Buffer:
  "upload_formData (Buffer b) p =
     Inr (\<lparr>part_name = ''file'', part_value = Buffer b,
           part_options =
             Some \<lparr>filename = fst (split_path p), contentType = ''application/octet-stream''\<rparr>\<rparr>
          # (if snd (split_path p) = [] then []
             else [\<lparr>part_name = ''path'', part_value = Text (snd (split_path p)),
                    part_options = None\<rparr>]))"
  by (simp add: upload_formData_def append_def Let_def split: prod.splits)

lemma upload_formData_Text:
  "upload_formData (Text s) p =
     Inr (\<lparr>part_name = ''file'', part_value = Text s, part_options = None\<rparr>
          # (if snd (split_path p) = [] then []
             else [\<lparr>part_name = ''path'', part_value = Text (snd (split_path p)),
                    part_options = None\<rparr>]))"
  by (simp add: upload_formData_def append_def Let_def split: prod.splits)

text \<open>
  A \<open>File\<close> makes the first \<open>append\<close> throw: no form is built, no request is made, and
  the caller gets the \<open>TypeError\<close> of the library.
\<close>

lemma uploadFile_File:
  "upload_formData (File fo) p = Inl TypeError \<and>
   uploadFile rt this dc n (File fo) p = Inl TypeError"
  by (simp add: uploadFile_def upload_formData_def append_def Let_def split: prod.splits)

lemma uploadFile_posts:
  "upload_formData file p = Inr form \<Longrightarrow>
   uploadFile rt this dc n file p =
     (case http rt (httpClient this)
             \<lparr>req_method = POST,
              url = ''/objectstorage/'' @ dc @ ''/bucket/'' @ n @ ''/upload/'',
              req_body = Multipart form,
              req_headers = spread (upload_authHeaders (config this)) (getHeaders rt)\<rparr> of
        Inl err \<Rightarrow> Inl (Utho (handleError err))
      | Inr resp \<Rightarrow> Inr ())"
  by (simp add: uploadFile_def uploadFile_request_def intercepted_def split: sum.splits)

subsection \<open>The constructor\<close>

lemma token_client_constructed: "new_UthoObjectStorage token_config = Inr token_client"
  by (simp add: new_UthoObjectStorage_def token_config_def token_client_def
      constructor_authHeaders_def Let_def)

lemma constructed_config:
  "new_UthoObjectStorage cfg = Inr this \<Longrightarrow>
     token (config this) = token cfg \<and> accessKey (config this) = accessKey cfg \<and>
     secretKey (config this) = secretKey cfg \<and>
     inst_headers (httpClient this) = constructor_authHeaders (config this) \<and>
     (supplied (token cfg) \<or> supplied (accessKey cfg) \<and> supplied (secretKey cfg))"
  by (auto simp: new_UthoObjectStorage_def Let_def split: if_splits)

lemma token_client_upload_headers:
  "spread (upload_authHeaders (config token_client)) (getHeaders (expecting r resp)) =
     [(''Authorization'', ''Bearer your-bearer-token''),
      (''content-type'', ''multipart/form-data; boundary=----0123456789'')]"
  by (simp add: spread_def upload_authHeaders_def getHeaders_def token_client_def
      token_config_def expecting_def)

subsection \<open>Upload path splitting\<close>

text \<open>
  C1 (amended). For every combined path given to \<open>uploadFile\<close>, the directory path is
  the substring before the last \<open>/\<close> (empty when the path has no \<open>/\<close>), and the file
  name is the substring after the last \<open>/\<close> when that substring is not empty, and the
  literal \<open>file\<close> when it is empty. For a \<open>Buffer\<close>, \<open>uploadFile\<close> posts to the upload
  endpoint a multipart body that is the \<open>file\<close> part, with that file name, followed by
  one part named \<open>path\<close> whose value is the directory path when the directory path is not
  empty, and by nothing when it is empty; the call returns what the transport answers.
\<close>

theorem uploadFile_path_split:
  "fst (split_path p) = (if spec_objectName p = [] then ''file'' else spec_objectName p) \<and>
   snd (split_path p) = spec_directoryPath p \<and>
   uploadFile rt this dc n (Buffer b) p =
     (case http rt (httpClient this)
             \<lparr>req_method = POST,
              url = ''/objectstorage/'' @ dc @ ''/bucket/'' @ n @ ''/upload/'',
              req_body = Multipart
                (\<lparr>part_name = ''file'', part_value = Buffer b,
                  part_options =
                    Some \<lparr>filename =
                            (if spec_objectName p = [] then ''file'' else spec_objectName p),
                          contentType = ''application/octet-stream''\<rparr>\<rparr>
                 # (if spec_directoryPath p = [] then []
                    else [\<lparr>part_name = ''path'', part_value = Text (spec_directoryPath p),
                           part_options = None\<rparr>])),
              req_headers = spread (upload_authHeaders (config this)) (getHeaders rt)\<rparr> of
        Inl err \<Rightarrow> Inl (Utho (handleError err))
      | Inr resp \<Rightarrow> Inr ())"
proof -
  have sp: "split_path p =
      (if spec_objectName p = [] then ''file'' else spec_objectName p, spec_directoryPath p)"
    by (rule split_path_spec)
  have form: "upload_formData (Buffer b) p =
     Inr (\<lparr>part_name = ''file'', part_value = Buffer b,
           part_options =
             Some \<lparr>filename = (if spec_objectName p = [] then ''file'' else spec_objectName p),
                   contentType = ''application/octet-stream''\<rparr>\<rparr>
          # (if spec_directoryPath p = [] then []
             else [\<lparr>part_name = ''path'', part_value = Text (spec_directoryPath p),
                    part_options = None\<rparr>]))"
    using upload_formData_Buffer[of b p] by (simp add: sp)
  show ?thesis
    using uploadFile_posts[OF form, of rt this dc n] by (simp add: sp)
qed

text \<open>
  The two paths of the specification, over a transport that accepts only the request
  written out: \<open>documents/file.txt\<close> carries the \<open>path\<close> part \<open>documents\<close> once,
  \<open>file.txt\<close> carries none.
\<close>

theorem uploadFile_path_split_witness:
  "uploadFile
     (expecting
        \<lparr>req_method = POST, url = ''/objectstorage/innoida/bucket/my-bucket/upload/'',
         req_body = Multipart
           [\<lparr>part_name = ''file'', part_value = Buffer [72, 105],
             part_options =
               Some \<lparr>filename = ''file.txt'', contentType = ''application/octet-stream''\<rparr>\<rparr>,
            \<lparr>part_name = ''path'', part_value = Text ''documents'', part_options = None\<rparr>],
         req_headers =
           [(''Authorization'', ''Bearer your-bearer-token''),
            (''content-type'', ''multipart/form-data; boundary=----0123456789'')]\<rparr>
        ok_response)
     token_client ''innoida'' ''my-bucket'' (Buffer [72, 105]) ''documents/file.txt'' = Inr () \<and>
   uploadFile
     (expecting
        \<lparr>req_method = POST, url = ''/objectstorage/innoida/bucket/my-bucket/upload/'',
         req_body = Multipart
           [\<lparr>part_name = ''file'', part_value = Buffer [72, 105],
             part_options =
               Some \<lparr>filename = ''file.txt'', contentType = ''application/octet-stream''\<rparr>\<rparr>],
         req_headers =
           [(''Authorization'', ''Bearer your-bearer-token''),
            (''content-type'', ''multipart/form-data; boundary=----0123456789'')]\<rparr>
        ok_response)
     token_client ''innoida'' ''my-bucket'' (Buffer [72, 105]) ''file.txt'' = Inr ()"
proof -
  have a: "spec_objectName ''documents/file.txt'' = ''file.txt'' \<and>
           spec_directoryPath ''documents/file.txt'' = ''documents''"
    using spec_slash[of "''file.txt''" "''documents''"] by simp
  have b: "spec_objectName ''file.txt'' = ''file.txt'' \<and> spec_directoryPath ''file.txt'' = []"
    using spec_no_slash[of "''file.txt''"] by simp
  have h: "\<And>r. http (expecting r ok_response) (httpClient token_client) r = Inr ok_response"
    by (simp add: expecting_def)
  show ?thesis
    using uploadFile_path_split[where p = "''documents/file.txt''" and this = token_client
        and dc = "''innoida''" and n = "''my-bucket''" and b = "[72, 105]"]
      uploadFile_path_split[where p = "''file.txt''" and this = token_client
        and dc = "''innoida''" and n = "''my-bucket''" and b = "[72, 105]"]
    by (simp add: a b h token_client_upload_headers)
qed

text \<open>
  Without the amendment the statement fails on a path that ends with \<open>/\<close>: the
  substring after the last \<open>/\<close> of \<open>docs/\<close> is empty, and the file name is \<open>file\<close>.
\<close>

theorem uploadFile_trailing_slash_name:
  "spec_objectName ''docs/'' = [] \<and> fst (split_path ''docs/'') = ''file'' \<and>
   fst (split_path ''docs/'') \<noteq> spec_objectName ''docs/''"
  using split_path_slash[of "[]" "''docs''"] spec_slash[of "[]" "''docs''"] by simp

text \<open>
  C10 (amended). For a combined path that is empty or ends with \<open>/\<close>, the file name is
  the literal \<open>file\<close> and the directory path is everything before the final \<open>/\<close>. For a
  \<open>Buffer\<close>, \<open>uploadFile\<close> then posts a multipart body whose \<open>file\<close> part has the
  \<open>filename\<close> \<open>file\<close>, followed by the \<open>path\<close> part with the directory path when that is
  not empty, and by nothing when it is empty (the paths \<open>''\<close> and \<open>/\<close>).
\<close>

theorem uploadFile_empty_name_is_file:
  "split_path [] = (''file'', []) \<and>
   split_path (d @ ''/'') = (''file'', d) \<and>
   uploadFile rt this dc n (Buffer b) [] =
     (case http rt (httpClient this)
             \<lparr>req_method = POST,
              url = ''/objectstorage/'' @ dc @ ''/bucket/'' @ n @ ''/upload/'',
              req_body = Multipart
                [\<lparr>part_name = ''file'', part_value = Buffer b,
                  part_options =
                    Some \<lparr>filename = ''file'', contentType = ''application/octet-stream''\<rparr>\<rparr>],
              req_headers = spread (upload_authHeaders (config this)) (getHeaders rt)\<rparr> of
        Inl err \<Rightarrow> Inl (Utho (handleError err))
      | Inr resp \<Rightarrow> Inr ()) \<and>
   uploadFile rt this dc n (Buffer b) (d @ ''/'') =
     (case http rt (httpClient this)
             \<lparr>req_method = POST,
              url = ''/objectstorage/'' @ dc @ ''/bucket/'' @ n @ ''/upload/'',
              req_body = Multipart
                (\<lparr>part_name = ''file'', part_value = Buffer b,
                  part_options =
                    Some \<lparr>filename = ''file'', contentType = ''application/octet-stream''\<rparr>\<rparr>
                 # (if d = [] then []
                    else [\<lparr>part_name = ''path'', part_value = Text d, part_options = None\<rparr>])),
              req_headers = spread (upload_authHeaders (config this)) (getHeaders rt)\<rparr> of
        Inl err \<Rightarrow> Inl (Utho (handleError err))
      | Inr resp \<Rightarrow> Inr ())"
proof -
  have e: "split_path [] = (''file'', [])"
    using split_path_no_slash[of "[]"] by simp
  have s: "split_path (d @ ''/'') = (''file'', d)"
    using split_path_slash[of "[]" d] by simp
  have fe: "upload_formData (Buffer b) [] =
     Inr [\<lparr>part_name = ''file'', part_value = Buffer b,
            part_options =
              Some \<lparr>filename = ''file'', contentType = ''application/octet-stream''\<rparr>\<rparr>]"
    using upload_formData_Buffer[of b "[]"] by (simp add: e)
  have fs: "upload_formData (Buffer b) (d @ ''/'') =
     Inr (\<lparr>part_name = ''file'', part_value = Buffer b,
           part_options =
             Some \<lparr>filename = ''file'', contentType = ''application/octet-stream''\<rparr>\<rparr>
          # (if d = [] then []
             else [\<lparr>part_name = ''path'', part_value = Text d, part_options = None\<rparr>]))"
    using upload_formData_Buffer[of b "d @ ''/''"] by (simp add: s)
  show ?thesis
    using uploadFile_posts[OF fe, of rt this dc n] uploadFile_posts[OF fs, of rt this dc n]
    by (simp add: e s)
qed

theorem uploadFile_empty_name_is_file_witness:
  "split_path ''docs/'' = (''file'', ''docs'') \<and>
   uploadFile
     (expecting
        \<lparr>req_method = POST, url = ''/objectstorage/innoida/bucket/my-bucket/upload/'',
         req_body = Multipart
           [\<lparr>part_name = ''file'', part_value = Buffer [72, 105],
             part_options =
               Some \<lparr>filename = ''file'', contentType = ''application/octet-stream''\<rparr>\<rparr>,
            \<lparr>part_name = ''path'', part_value = Text ''docs'', part_options = None\<rparr>],
         req_headers =
           [(''Authorization'', ''Bearer your-bearer-token''),
            (''content-type'', ''multipart/form-data; boundary=----0123456789'')]\<rparr>
        ok_response)
     token_client ''innoida'' ''my-bucket'' (Buffer [72, 105]) ''docs/'' = Inr () \<and>
   uploadFile
     (expecting
        \<lparr>req_method = POST, url = ''/objectstorage/innoida/bucket/my-bucket/upload/'',
         req_body = Multipart
           [\<lparr>part_name = ''file'', part_value = Buffer [72, 105],
             part_options =
               Some \<lparr>filename = ''file'', contentType = ''application/octet-stream''\<rparr>\<rparr>],
         req_headers =
           [(''Authorization'', ''Bearer your-bearer-token''),
            (''content-type'', ''multipart/form-data; boundary=----0123456789'')]\<rparr>
        ok_response)
     token_client ''innoida'' ''my-bucket'' (Buffer [72, 105]) [] = Inr ()"
proof -
  have h: "\<And>r. http (expecting r ok_response) (httpClient token_client) r = Inr ok_response"
    by (simp add: expecting_def)
  show ?thesis
    using uploadFile_empty_name_is_file[where d = "''docs''" and this = token_client
        and dc = "''innoida''" and n = "''my-bucket''" and b = "[72, 105]"]
    by (simp add: h token_client_upload_headers)
qed

text \<open>
  The statement does not hold for content that is not a \<open>Buffer\<close>: the file name is
  given to the form only in the branch for a \<open>Buffer\<close>. For string content and the path
  \<open>docs/\<close> the body posted has a \<open>file\<close> part without a \<open>filename\<close>.
\<close>

theorem uploadFile_text_has_no_filename:
  "uploadFile
     (expecting
        \<lparr>req_method = POST, url = ''/objectstorage/innoida/bucket/my-bucket/upload/'',
         req_body = Multipart
           [\<lparr>part_name = ''file'', part_value = Text ''Hello, World!'', part_options = None\<rparr>,
            \<lparr>part_name = ''path'', part_value = Text ''docs'', part_options = None\<rparr>],
         req_headers =
           [(''Authorization'', ''Bearer your-bearer-token''),
            (''content-type'', ''multipart/form-data; boundary=----0123456789'')]\<rparr>
        ok_response)
     token_client ''innoida'' ''my-bucket'' (Text ''Hello, World!'') ''docs/'' = Inr ()"
proof -
  have s: "split_path ''docs/'' = (''file'', ''docs'')"
    using split_path_slash[of "[]" "''docs''"] by simp
  have f: "upload_formData (Text ''Hello, World!'') ''docs/'' =
     Inr [\<lparr>part_name = ''file'', part_value = Text ''Hello, World!'', part_options = None\<rparr>,
          \<lparr>part_name = ''path'', part_value = Text ''docs'', part_options = None\<rparr>]"
    using upload_formData_Text[of "''Hello, World!''" "''docs/''"] by (simp add: s)
  have h: "\<And>r. http (expecting r ok_response) (httpClient token_client) r = Inr ok_response"
    by (simp add: expecting_def)
  show ?thesis
    using uploadFile_posts[OF f, of _ token_client "''innoida''" "''my-bucket''"]
    by (simp add: h token_client_upload_headers)
qed

subsection \<open>putObject\<close>

text \<open>
  C2. For string content, \<open>putObject\<close> with a non-empty path prefix is the call of
  \<open>uploadFile\<close> with the buffer of the content and the combined path
  \<open>path + '/' + filename\<close>; with an empty or omitted prefix it is the call with the bare
  file name. The two calls are equal for every transport, so they issue the same
  request and return the same result.
\<close>

theorem putObject_delegates_to_uploadFile:
  "(p \<noteq> [] \<longrightarrow>
      putObject rt this dc n f (Text s) (Some p) =
        uploadFile rt this dc n (Buffer (Buffer_from_utf8 rt s)) (p @ ''/'' @ f)) \<and>
   putObject rt this dc n f (Text s) (Some []) =
     uploadFile rt this dc n (Buffer (Buffer_from_utf8 rt s)) f \<and>
   putObject rt this dc n f (Text s) None =
     uploadFile rt this dc n (Buffer (Buffer_from_utf8 rt s)) f"
  by (simp add: putObject_def)

theorem putObject_delegates_to_uploadFile_witness:
  "putObject accepting token_client ''innoida'' ''my-bucket'' ''notes.txt'' (Text ''hi there'')
       (Some ''docs'') =
     uploadFile accepting token_client ''innoida'' ''my-bucket''
       (Buffer (ascii_bytes ''hi there'')) ''docs/notes.txt''"
  using putObject_delegates_to_uploadFile[of "''docs''" accepting token_client "''innoida''"
      "''my-bucket''" "''notes.txt''" "''hi there''"]
  by (simp add: accepting_def)

subsection \<open>Upload content\<close>

text \<open>
  C3 (amended). For string content, which is neither a byte buffer nor a file,
  \<open>uploadFile\<close> does not fail before the network and raises no \<open>InvalidArgumentError\<close>:
  it posts the string as the \<open>file\<close> part, as it is and without options, followed by
  the \<open>path\<close> part when the directory path is not empty. The call fails exactly when the
  transport rejects that request, with the normalised error of the rejection.
\<close>

theorem uploadFile_no_content_check:
  "uploadFile rt this dc n (Text s) p =
     (case http rt (httpClient this)
             \<lparr>req_method = POST,
              url = ''/objectstorage/'' @ dc @ ''/bucket/'' @ n @ ''/upload/'',
              req_body = Multipart
                (\<lparr>part_name = ''file'', part_value = Text s, part_options = None\<rparr>
                 # (if spec_directoryPath p = [] then []
                    else [\<lparr>part_name = ''path'', part_value = Text (spec_directoryPath p),
                           part_options = None\<rparr>])),
              req_headers = spread (upload_authHeaders (config this)) (getHeaders rt)\<rparr> of
        Inl err \<Rightarrow> Inl (Utho (handleError err))
      | Inr resp \<Rightarrow> Inr ())"
proof -
  have sp: "snd (split_path p) = spec_directoryPath p"
    by (simp add: split_path_spec)
  have form: "upload_formData (Text s) p =
     Inr (\<lparr>part_name = ''file'', part_value = Text s, part_options = None\<rparr>
          # (if spec_directoryPath p = [] then []
             else [\<lparr>part_name = ''path'', part_value = Text (spec_directoryPath p),
                    part_options = None\<rparr>]))"
    using upload_formData_Text[of s p] by (simp add: sp)
  show ?thesis
    using uploadFile_posts[OF form, of rt this dc n] by simp
qed

text \<open>
  A transport that accepts only the request written out, and one that answers 503.
\<close>

theorem uploadFile_no_content_check_witness:
  "uploadFile
     (expecting
        \<lparr>req_method = POST, url = ''/objectstorage/innoida/bucket/my-bucket/upload/'',
         req_body = Multipart
           [\<lparr>part_name = ''file'', part_value = Text ''Hello, World!'', part_options = None\<rparr>],
         req_headers =
           [(''Authorization'', ''Bearer your-bearer-token''),
            (''content-type'', ''multipart/form-data; boundary=----0123456789'')]\<rparr>
        ok_response)
     token_client ''innoida'' ''my-bucket'' (Text ''Hello, World!'') ''hello.txt'' = Inr () \<and>
   uploadFile (rejecting 503) token_client ''innoida'' ''my-bucket'' (Text ''Hello, World!'')
       ''hello.txt''
     = Inl (Utho (handleError (status_error 503)))"
proof -
  have b: "spec_directoryPath ''hello.txt'' = []"
    using spec_no_slash[of "''hello.txt''"] by simp
  have h: "\<And>r. http (expecting r ok_response) (httpClient token_client) r = Inr ok_response"
    by (simp add: expecting_def)
  have r: "\<And>q. http (rejecting 503) (httpClient token_client) q = Inl (status_error 503)"
    by (simp add: rejecting_def)
  show ?thesis
    using uploadFile_no_content_check[where p = "''hello.txt''" and this = token_client
        and dc = "''innoida''" and n = "''my-bucket''" and s = "''Hello, World!''"]
    by (simp add: b h r token_client_upload_headers)
qed

text \<open>
  A string is neither a byte buffer nor a file. Uploading one through a client built
  from a token, over a transport that accepts the request, succeeds.
\<close>

theorem uploadFile_string_content_accepted:
  "new_UthoObjectStorage token_config = Inr token_client \<and>
   uploadFile accepting token_client ''innoida'' ''my-bucket'' (Text ''Hello, World!'')
       ''hello.txt''
     = Inr ()"
proof -
  have "\<exists>form. upload_formData (Text ''Hello, World!'') ''hello.txt'' = Inr form"
    by (simp add: upload_formData_Text)
  then show ?thesis
    by (auto simp: token_client_constructed uploadFile_def intercepted_def accepting_def)
qed

subsection \<open>Bucket existence\<close>

text \<open>
  C4. \<open>bucketExists\<close> returns \<open>false\<close> exactly when the details call fails with a
  normalised error whose \<open>statusCode\<close> is 404, returns \<open>true\<close> exactly when the details
  call succeeds, and throws the error of the details call, unchanged, in every other
  case.
\<close>

theorem bucketExists_recovers_404_only:
  "(bucketExists rt this dc n = Inr False \<longleftrightarrow>
      (\<exists>e. getObjectStorageDetails rt this dc n = Inl (Utho e) \<and> statusCode e = 404)) \<and>
   (bucketExists rt this dc n = Inr True \<longleftrightarrow>
      (\<exists>d. getObjectStorageDetails rt this dc n = Inr d)) \<and>
   (\<forall>err. getObjectStorageDetails rt this dc n = Inl err \<and> statusCode_of err \<noteq> Num 404 \<longrightarrow>
      bucketExists rt this dc n = Inl err)"
proof -
  have sc: "\<And>err. statusCode_of err = Num 404 \<longleftrightarrow> (\<exists>e. err = Utho e \<and> statusCode e = 404)"
    subgoal for err by (cases err) auto
    done
  show ?thesis
    by (auto simp: bucketExists_def sc split: sum.splits)
qed

text \<open>A transport that answers 404, one that answers 200 and one that answers 403.\<close>

theorem bucketExists_recovers_404_only_witness:
  "bucketExists (rejecting 404) token_client ''innoida'' ''my-bucket'' = Inr False \<and>
   bucketExists accepting token_client ''innoida'' ''my-bucket'' = Inr True \<and>
   bucketExists (rejecting 403) token_client ''innoida'' ''my-bucket''
     = Inl (Utho (handleError (status_error 403)))"
proof -
  have d404: "getObjectStorageDetails (rejecting 404) token_client ''innoida'' ''my-bucket''
      = Inl (Utho (handleError (status_error 404)))"
    by (simp add: getObjectStorageDetails_def intercepted_def rejecting_def)
  have d403: "getObjectStorageDetails (rejecting 403) token_client ''innoida'' ''my-bucket''
      = Inl (Utho (handleError (status_error 403)))"
    by (simp add: getObjectStorageDetails_def intercepted_def rejecting_def)
  have dok: "getObjectStorageDetails accepting token_client ''innoida'' ''my-bucket''
      = Inr (Obj [(''name'', Str ''my-bucket'')])"
    by (simp add: getObjectStorageDetails_def intercepted_def accepting_def ok_response_def
        js_or_def)
  have s404: "statusCode (handleError (status_error 404)) = 404"
    by (simp add: handleError_def status_error_def)
  have s403: "statusCode (handleError (status_error 403)) = 403"
    by (simp add: handleError_def status_error_def)
  show ?thesis
    using bucketExists_recovers_404_only[of "rejecting 404" token_client "''innoida''" "''my-bucket''"]
          bucketExists_recovers_404_only[of accepting token_client "''innoida''" "''my-bucket''"]
          bucketExists_recovers_404_only[of "rejecting 403" token_client "''innoida''" "''my-bucket''"]
    by (simp add: d404 d403 dok s404 s403)
qed

subsection \<open>Credentials\<close>

text \<open>
  C5. Construction fails if and only if neither a Bearer token nor a complete
  \<open>accessKey\<close>/\<open>secretKey\<close> pair is supplied, and succeeds if and only if one of the two
  is. A credential is supplied when it is present and not the empty string, which is
  the test the constructor applies; a lone \<open>accessKey\<close> or \<open>secretKey\<close> is not a pair.
\<close>

theorem constructor_fails_iff_no_credentials:
  "((\<exists>e. new_UthoObjectStorage cfg = Inl e) \<longleftrightarrow>
      \<not> supplied (token cfg) \<and> \<not> (supplied (accessKey cfg) \<and> supplied (secretKey cfg))) \<and>
   ((\<exists>this. new_UthoObjectStorage cfg = Inr this) \<longleftrightarrow>
      supplied (token cfg) \<or> (supplied (accessKey cfg) \<and> supplied (secretKey cfg)))"
  by (auto simp: new_UthoObjectStorage_def Let_def)

theorem constructor_fails_iff_no_credentials_witness:
  "(\<exists>this. new_UthoObjectStorage token_config = Inr this) \<and>
   (\<exists>this. new_UthoObjectStorage keys_config = Inr this) \<and>
   (\<exists>this. new_UthoObjectStorage both_config = Inr this) \<and>
   (\<exists>e. new_UthoObjectStorage lone_key_config = Inl e) \<and>
   (\<exists>e. new_UthoObjectStorage empty_config = Inl e)"
  using constructor_fails_iff_no_credentials[of token_config]
        constructor_fails_iff_no_credentials[of keys_config]
        constructor_fails_iff_no_credentials[of both_config]
        constructor_fails_iff_no_credentials[of lone_key_config]
        constructor_fails_iff_no_credentials[of empty_config]
  by (simp add: token_config_def keys_config_def both_config_def lone_key_config_def
      empty_config_def)

text \<open>
  C6. In a constructed client, a supplied token gives the header \<open>Authorization\<close> and
  neither \<open>X-Access-Key\<close> nor \<open>X-Secret-Key\<close>, whether or not keys are supplied as well
  (the token takes precedence); without a token the client has the key pair, which gives
  \<open>X-Access-Key\<close> and \<open>X-Secret-Key\<close> and no \<open>Authorization\<close>. This holds for the
  headers of the HTTP client and for the headers \<open>uploadFile\<close> derives again, which are
  these headers and no other.
\<close>

theorem constructor_auth_headers:
  assumes "new_UthoObjectStorage cfg = Inr this"
  shows
    "(supplied (token cfg) \<longrightarrow>
        map_of (inst_headers (httpClient this)) ''Authorization''
          = Some (''Bearer '' @ the (token cfg)) \<and>
        map_of (inst_headers (httpClient this)) ''X-Access-Key'' = None \<and>
        map_of (inst_headers (httpClient this)) ''X-Secret-Key'' = None \<and>
        upload_authHeaders (config this) = [(''Authorization'', ''Bearer '' @ the (token cfg))]) \<and>
     (\<not> supplied (token cfg) \<longrightarrow>
        map_of (inst_headers (httpClient this)) ''X-Access-Key'' = accessKey cfg \<and>
        map_of (inst_headers (httpClient this)) ''X-Secret-Key'' = secretKey cfg \<and>
        accessKey cfg \<noteq> None \<and> secretKey cfg \<noteq> None \<and>
        map_of (inst_headers (httpClient this)) ''Authorization'' = None \<and>
        upload_authHeaders (config this) =
          [(''X-Access-Key'', the (accessKey cfg)), (''X-Secret-Key'', the (secretKey cfg))])"
proof -
  note c = constructed_config[OF assms]
  show ?thesis
  proof (cases "supplied (token cfg)")
    case True
    then show ?thesis
      using c by (simp add: constructor_authHeaders_def upload_authHeaders_def)
  next
    case False
    with c have k: "supplied (accessKey cfg)" "supplied (secretKey cfg)" by auto
    then obtain a s where as: "accessKey cfg = Some a" "secretKey cfg = Some s"
      by (cases "accessKey cfg"; cases "secretKey cfg") auto
    show ?thesis
      using c False k as by (simp add: constructor_authHeaders_def upload_authHeaders_def)
  qed
qed

text \<open>A token alone, a key pair alone, and both.\<close>

theorem constructor_auth_headers_witness:
  "(\<exists>this. new_UthoObjectStorage token_config = Inr this \<and>
      map_of (inst_headers (httpClient this)) ''Authorization''
        = Some ''Bearer your-bearer-token'' \<and>
      map_of (inst_headers (httpClient this)) ''X-Access-Key'' = None \<and>
      map_of (inst_headers (httpClient this)) ''X-Secret-Key'' = None) \<and>
   (\<exists>this. new_UthoObjectStorage keys_config = Inr this \<and>
      map_of (inst_headers (httpClient this)) ''X-Access-Key'' = Some ''your-access-key'' \<and>
      map_of (inst_headers (httpClient this)) ''X-Secret-Key'' = Some ''your-secret-key'' \<and>
      map_of (inst_headers (httpClient this)) ''Authorization'' = None) \<and>
   (\<exists>this. new_UthoObjectStorage both_config = Inr this \<and>
      map_of (inst_headers (httpClient this)) ''Authorization''
        = Some ''Bearer your-bearer-token'' \<and>
      map_of (inst_headers (httpClient this)) ''X-Access-Key'' = None \<and>
      map_of (inst_headers (httpClient this)) ''X-Secret-Key'' = None)"
proof -
  obtain t where t: "new_UthoObjectStorage token_config = Inr t"
    by (simp add: new_UthoObjectStorage_def token_config_def Let_def)
  obtain k where k: "new_UthoObjectStorage keys_config = Inr k"
    by (simp add: new_UthoObjectStorage_def keys_config_def Let_def)
  obtain b where b: "new_UthoObjectStorage both_config = Inr b"
    by (simp add: new_UthoObjectStorage_def both_config_def Let_def)
  show ?thesis
    using constructor_auth_headers[OF t] constructor_auth_headers[OF k]
      constructor_auth_headers[OF b] t k b
    by (simp add: token_config_def keys_config_def both_config_def)
qed

subsection \<open>Expiry of sharable URLs\<close>






subsection \<open>Headers of an upload\<close>

lemma lower_names_constructor:
  "lower_names [(''Content-Type'', ''application/json''),
                (''User-Agent'', ''@utho/object-storage/1.0.0''), (''Authorization'', a)] =
     [(''content-type'', ''application/json''),
      (''user-agent'', ''@utho/object-storage/1.0.0''), (''authorization'', a)]"
  "lower_names [(''Content-Type'', ''application/json''),
                (''User-Agent'', ''@utho/object-storage/1.0.0''),
                (''X-Access-Key'', k), (''X-Secret-Key'', s)] =
     [(''content-type'', ''application/json''),
      (''user-agent'', ''@utho/object-storage/1.0.0''),
      (''x-access-key'', k), (''x-secret-key'', s)]"
  "lower_names [(''Authorization'', a), (''content-type'', m)] =
     [(''authorization'', a), (''content-type'', m)]"
  "lower_names [(''X-Access-Key'', k), (''X-Secret-Key'', s), (''content-type'', m)] =
     [(''x-access-key'', k), (''x-secret-key'', s), (''content-type'', m)]"
  by (simp_all add: lower_names_def spread_def lower_char_def)

text \<open>
  C8. When \<open>uploadFile\<close> has built its form, it posts it with the auth headers of the
  client overridden by the headers of the multipart body: the result reads as the auth
  headers with the body's headers laid over them, so the body's value wins on every key
  both have; the body's header is the multipart content type with the boundary; and the
  auth headers (\<open>Authorization\<close>, or \<open>X-Access-Key\<close> and \<open>X-Secret-Key\<close>) are in the
  result with their values. The instance carries the default \<open>Content-Type\<close>
  \<open>application/json\<close>; in the headers axios sends for the call the content type is the
  multipart one, and the auth headers are there.
\<close>

theorem uploadFile_headers_merge:
  assumes "new_UthoObjectStorage cfg = Inr this" and "upload_formData file p = Inr form"
  shows
    "uploadFile rt this dc n file p =
       (case http rt (httpClient this)
               \<lparr>req_method = POST,
                url = ''/objectstorage/'' @ dc @ ''/bucket/'' @ n @ ''/upload/'',
                req_body = Multipart form,
                req_headers = spread (upload_authHeaders (config this)) (getHeaders rt)\<rparr> of
          Inl err \<Rightarrow> Inl (Utho (handleError err))
        | Inr resp \<Rightarrow> Inr ()) \<and>
     map_of (spread (upload_authHeaders (config this)) (getHeaders rt)) =
       map_of (upload_authHeaders (config this)) ++ map_of (getHeaders rt) \<and>
     map_of (getHeaders rt) = [''content-type'' \<mapsto> ''multipart/form-data; boundary='' @ boundary rt] \<and>
     map_of (spread (upload_authHeaders (config this)) (getHeaders rt)) ''content-type'' =
       Some (''multipart/form-data; boundary='' @ boundary rt) \<and>
     (if supplied (token cfg)
      then map_of (spread (upload_authHeaders (config this)) (getHeaders rt)) ''Authorization''
             = Some (''Bearer '' @ the (token cfg))
      else map_of (spread (upload_authHeaders (config this)) (getHeaders rt)) ''X-Access-Key''
             = accessKey cfg \<and>
           map_of (spread (upload_authHeaders (config this)) (getHeaders rt)) ''X-Secret-Key''
             = secretKey cfg \<and>
           accessKey cfg \<noteq> None \<and> secretKey cfg \<noteq> None) \<and>
     map_of (inst_headers (httpClient this)) ''Content-Type'' = Some ''application/json'' \<and>
     map_of (axios_headers (httpClient this)
               \<lparr>req_method = POST,
                url = ''/objectstorage/'' @ dc @ ''/bucket/'' @ n @ ''/upload/'',
                req_body = Multipart form,
                req_headers = spread (upload_authHeaders (config this)) (getHeaders rt)\<rparr>)
       ''content-type'' = Some (''multipart/form-data; boundary='' @ boundary rt) \<and>
     (if supplied (token cfg)
      then map_of (axios_headers (httpClient this)
               \<lparr>req_method = POST,
                url = ''/objectstorage/'' @ dc @ ''/bucket/'' @ n @ ''/upload/'',
                req_body = Multipart form,
                req_headers = spread (upload_authHeaders (config this)) (getHeaders rt)\<rparr>)
             ''authorization'' = Some (''Bearer '' @ the (token cfg))
      else map_of (axios_headers (httpClient this)
               \<lparr>req_method = POST,
                url = ''/objectstorage/'' @ dc @ ''/bucket/'' @ n @ ''/upload/'',
                req_body = Multipart form,
                req_headers = spread (upload_authHeaders (config this)) (getHeaders rt)\<rparr>)
             ''x-access-key'' = accessKey cfg \<and>
           map_of (axios_headers (httpClient this)
               \<lparr>req_method = POST,
                url = ''/objectstorage/'' @ dc @ ''/bucket/'' @ n @ ''/upload/'',
                req_body = Multipart form,
                req_headers = spread (upload_authHeaders (config this)) (getHeaders rt)\<rparr>)
             ''x-secret-key'' = secretKey cfg)"
proof -
  note c = constructed_config[OF assms(1)]
  define m where "m = ''multipart/form-data; boundary='' @ boundary rt"
  define R where "R =
     \<lparr>req_method = POST,
      url = ''/objectstorage/'' @ dc @ ''/bucket/'' @ n @ ''/upload/'',
      req_body = Multipart form,
      req_headers = spread (upload_authHeaders (config this)) (getHeaders rt)\<rparr>"
  have posts: "uploadFile rt this dc n file p =
       (case http rt (httpClient this) R of
          Inl err \<Rightarrow> Inl (Utho (handleError err))
        | Inr resp \<Rightarrow> Inr ())"
    unfolding R_def by (rule uploadFile_posts[OF assms(2)])
  have sp: "spread (upload_authHeaders (config this)) (getHeaders rt) =
      set_header ''content-type'' m (upload_authHeaders (config this))"
    by (simp add: getHeaders_def spread_single m_def)
  have merge: "map_of (spread (upload_authHeaders (config this)) (getHeaders rt)) =
       map_of (upload_authHeaders (config this)) ++ map_of (getHeaders rt)"
    by (simp add: sp map_of_set_header) (simp add: getHeaders_def m_def)
  have body: "map_of (getHeaders rt) = [''content-type'' \<mapsto> m]"
    by (simp add: getHeaders_def m_def)
  have ct: "map_of (spread (upload_authHeaders (config this)) (getHeaders rt)) ''content-type''
      = Some m"
    by (simp add: sp map_of_set_header)
  have "map_of (constructor_authHeaders (config this)) ''Content-Type'' = Some ''application/json''"
    by (simp add: constructor_authHeaders_def Let_def map_of_set_header)
  with c have dflt:
    "map_of (inst_headers (httpClient this)) ''Content-Type'' = Some ''application/json''"
    by simp
  have rh: "req_headers R = spread (upload_authHeaders (config this)) (getHeaders rt)"
    by (simp add: R_def)
  show ?thesis
  proof (cases "supplied (token cfg)")
    case True
    define a where "a = ''Bearer '' @ the (token cfg)"
    have ih: "inst_headers (httpClient this) =
        [(''Content-Type'', ''application/json''),
         (''User-Agent'', ''@utho/object-storage/1.0.0''), (''Authorization'', a)]"
      using c True by (simp add: constructor_authHeaders_def a_def)
    have ua: "upload_authHeaders (config this) = [(''Authorization'', a)]"
      using c True by (simp add: upload_authHeaders_def a_def)
    have uh: "spread (upload_authHeaders (config this)) (getHeaders rt) =
        [(''Authorization'', a), (''content-type'', m)]"
      by (simp add: ua getHeaders_def spread_def m_def)
    have ax: "axios_headers (httpClient this) R =
        [(''content-type'', m), (''user-agent'', ''@utho/object-storage/1.0.0''),
         (''authorization'', a)]"
      by (simp add: axios_headers_def rh ih uh lower_names_constructor) (simp add: spread_def)
    have A: "if supplied (token cfg)
      then map_of (spread (upload_authHeaders (config this)) (getHeaders rt)) ''Authorization''
             = Some (''Bearer '' @ the (token cfg))
      else map_of (spread (upload_authHeaders (config this)) (getHeaders rt)) ''X-Access-Key''
             = accessKey cfg \<and>
           map_of (spread (upload_authHeaders (config this)) (getHeaders rt)) ''X-Secret-Key''
             = secretKey cfg \<and>
           accessKey cfg \<noteq> None \<and> secretKey cfg \<noteq> None"
      by (simp add: True uh a_def)
    have CT: "map_of (axios_headers (httpClient this) R) ''content-type'' = Some m"
      by (simp add: ax)
    have B: "if supplied (token cfg)
      then map_of (axios_headers (httpClient this) R) ''authorization''
             = Some (''Bearer '' @ the (token cfg))
      else map_of (axios_headers (httpClient this) R) ''x-access-key'' = accessKey cfg \<and>
           map_of (axios_headers (httpClient this) R) ''x-secret-key'' = secretKey cfg"
      by (simp add: True ax a_def)
    from posts merge body ct A dflt CT B show ?thesis
      unfolding R_def m_def by blast
  next
    case False
    with c have k: "supplied (accessKey cfg)" "supplied (secretKey cfg)" by auto
    then obtain ak sk where as: "accessKey cfg = Some ak" "secretKey cfg = Some sk"
      by (cases "accessKey cfg"; cases "secretKey cfg") auto
    have ih: "inst_headers (httpClient this) =
        [(''Content-Type'', ''application/json''),
         (''User-Agent'', ''@utho/object-storage/1.0.0''),
         (''X-Access-Key'', ak), (''X-Secret-Key'', sk)]"
      using c False k as by (simp add: constructor_authHeaders_def)
    have ua: "upload_authHeaders (config this) = [(''X-Access-Key'', ak), (''X-Secret-Key'', sk)]"
      using c False k as by (simp add: upload_authHeaders_def)
    have uh: "spread (upload_authHeaders (config this)) (getHeaders rt) =
        [(''X-Access-Key'', ak), (''X-Secret-Key'', sk), (''content-type'', m)]"
      by (simp add: ua getHeaders_def spread_def m_def)
    have ax: "axios_headers (httpClient this) R =
        [(''content-type'', m), (''user-agent'', ''@utho/object-storage/1.0.0''),
         (''x-access-key'', ak), (''x-secret-key'', sk)]"
      by (simp add: axios_headers_def rh ih uh lower_names_constructor) (simp add: spread_def)
    have A: "if supplied (token cfg)
      then map_of (spread (upload_authHeaders (config this)) (getHeaders rt)) ''Authorization''
             = Some (''Bearer '' @ the (token cfg))
      else map_of (spread (upload_authHeaders (config this)) (getHeaders rt)) ''X-Access-Key''
             = accessKey cfg \<and>
           map_of (spread (upload_authHeaders (config this)) (getHeaders rt)) ''X-Secret-Key''
             = secretKey cfg \<and>
           accessKey cfg \<noteq> None \<and> secretKey cfg \<noteq> None"
      by (simp add: False uh as)
    have CT: "map_of (axios_headers (httpClient this) R) ''content-type'' = Some m"
      by (simp add: ax)
    have B: "if supplied (token cfg)
      then map_of (axios_headers (httpClient this) R) ''authorization''
             = Some (''Bearer '' @ the (token cfg))
      else map_of (axios_headers (httpClient this) R) ''x-access-key'' = accessKey cfg \<and>
           map_of (axios_headers (httpClient this) R) ''x-secret-key'' = secretKey cfg"
      by (simp add: False ax as)
    from posts merge body ct A dflt CT B show ?thesis
      unfolding R_def m_def by blast
  qed
qed

text \<open>
  An upload to the bucket root through the client built from a token: the request with
  the two headers is the one posted, and axios sends the multipart content type.
\<close>

theorem uploadFile_headers_merge_witness:
  "uploadFile
     (expecting
        \<lparr>req_method = POST, url = ''/objectstorage/innoida/bucket/my-bucket/upload/'',
         req_body = Multipart
           [\<lparr>part_name = ''file'', part_value = Buffer [72, 105],
             part_options =
               Some \<lparr>filename = ''hello.txt'', contentType = ''application/octet-stream''\<rparr>\<rparr>],
         req_headers =
           [(''Authorization'', ''Bearer your-bearer-token''),
            (''content-type'', ''multipart/form-data; boundary=----0123456789'')]\<rparr>
        ok_response)
     token_client ''innoida'' ''my-bucket'' (Buffer [72, 105]) ''hello.txt'' = Inr () \<and>
   map_of (axios_headers (httpClient token_client)
        \<lparr>req_method = POST, url = ''/objectstorage/innoida/bucket/my-bucket/upload/'',
         req_body = Multipart
           [\<lparr>part_name = ''file'', part_value = Buffer [72, 105],
             part_options =
               Some \<lparr>filename = ''hello.txt'', contentType = ''application/octet-stream''\<rparr>\<rparr>],
         req_headers =
           [(''Authorization'', ''Bearer your-bearer-token''),
            (''content-type'', ''multipart/form-data; boundary=----0123456789'')]\<rparr>)
     ''content-type'' = Some ''multipart/form-data; boundary=----0123456789''"
proof -
  have sp: "split_path ''hello.txt'' = (''hello.txt'', [])"
    using split_path_no_slash[of "''hello.txt''"] by simp
  have f: "upload_formData (Buffer [72, 105]) ''hello.txt'' =
      Inr [\<lparr>part_name = ''file'', part_value = Buffer [72, 105],
             part_options =
               Some \<lparr>filename = ''hello.txt'', contentType = ''application/octet-stream''\<rparr>\<rparr>]"
    using upload_formData_Buffer[of "[72, 105]" "''hello.txt''"] by (simp add: sp)
  have h: "\<And>r. http (expecting r ok_response) (httpClient token_client) r = Inr ok_response"
    by (simp add: expecting_def)
  have b: "\<And>r. boundary (expecting r ok_response) = ''----0123456789''"
    by (simp add: expecting_def)
  show ?thesis
    using uploadFile_headers_merge[OF token_client_constructed f,
        where dc = "''innoida''" and n = "''my-bucket''" and rt = "expecting
        \<lparr>req_method = POST, url = ''/objectstorage/innoida/bucket/my-bucket/upload/'',
         req_body = Multipart
           [\<lparr>part_name = ''file'', part_value = Buffer [72, 105],
             part_options =
               Some \<lparr>filename = ''hello.txt'', contentType = ''application/octet-stream''\<rparr>\<rparr>],
         req_headers =
           [(''Authorization'', ''Bearer your-bearer-token''),
            (''content-type'', ''multipart/form-data; boundary=----0123456789'')]\<rparr>
        ok_response"]
    by (simp add: h b token_client_upload_headers token_config_def)
qed

subsection \<open>Normalised errors\<close>



end
